theory Spec2Isabelle
  imports Main
begin

section \<open>The Pipe decorator handler of ngtsc\<close>

text \<open>
  A shallow embedding of \<^verbatim>\<open>packages/compiler-cli/src/ngtsc/annotations/src/pipe.ts\<close>:
  the class \<^verbatim>\<open>PipeDecoratorHandler\<close> with its three methods \<^verbatim>\<open>detect\<close>,
  \<^verbatim>\<open>analyze\<close> and \<^verbatim>\<open>compile\<close>.

  The file imports its collaborators (the partial evaluator, the scope registry, the
  reflection helpers, the code emitter of \<^verbatim>\<open>@angular/compiler\<close>) from other modules.
  Their bodies are not part of the handler; the functions among them are fields of the
  handler record below, so every theorem about \<open>detect\<close>, \<open>analyze\<close> and \<open>compile\<close>
  holds for every implementation of them.
\<close>

subsection \<open>TypeScript syntax\<close>

text \<open>\<^verbatim>\<open>ts.Identifier\<close>: the handler reads its \<^verbatim>\<open>text\<close>.\<close>

record Identifier =
  "text" :: string

text \<open>
  \<^verbatim>\<open>ts.Expression\<close>, restricted to the node kinds that can stand as the argument of a
  decorator call or as the initializer of one of its properties. An object literal
  carries its property assignments (name and initializer) in source order; an
  \<^verbatim>\<open>as\<close> expression carries the text of its type.
\<close>

datatype Expression =
    StringLiteral string
  | NumericLiteral int
  | TrueKeyword
  | FalseKeyword
  | NullKeyword
  | IdentifierExpression Identifier
  | ParenthesizedExpression Expression
  | AsExpression Expression string
  | ObjectLiteralExpression "(string \<times> Expression) list"

text \<open>\<^verbatim>\<open>ts.isObjectLiteralExpression\<close>: a test on the kind of the node.\<close>

fun isObjectLiteralExpression :: "Expression \<Rightarrow> bool" where
  "isObjectLiteralExpression (ObjectLiteralExpression properties) = True"
| "isObjectLiteralExpression other = False"

text \<open>
  \<^verbatim>\<open>ts.ClassDeclaration\<close>: \<^verbatim>\<open>name\<close> is \<^verbatim>\<open>undefined\<close> (\<open>None\<close>) for an anonymous class;
  \<^verbatim>\<open>pos\<close> is the position of the node in its file and tells two declarations apart.
\<close>

record ClassDeclaration =
  name :: "Identifier option"
  pos :: nat

text \<open>
  \<^verbatim>\<open>ts.Node\<close>: the nodes the handler hands on (as the trigger of a match, as the
  location of a diagnostic) or is given (the declaration passed to \<^verbatim>\<open>detect\<close>).
  A decorator node is known by its position.
\<close>

datatype Node =
    ClassDeclarationNode ClassDeclaration
  | ExpressionNode Expression
  | DecoratorNode nat
  | OtherDeclarationNode nat

subsection \<open>Reflection, diagnostics, evaluation\<close>

text \<open>
  \<^verbatim>\<open>Decorator\<close> of \<^verbatim>\<open>../../reflection\<close>: \<^verbatim>\<open>args\<close> is \<^verbatim>\<open>null\<close> (\<open>None\<close>) when the
  decorator was not called; \<^verbatim>\<open>import\<close> says where its identifier was imported from,
  and is consulted by \<^verbatim>\<open>isAngularCore\<close> only.
\<close>

record Import =
  name :: string
  "from" :: string

record Decorator =
  name :: string
  "import" :: "Import option"
  node :: Node
  args :: "Expression list option"

text \<open>
  \<^verbatim>\<open>ErrorCode\<close> of \<^verbatim>\<open>../../diagnostics\<close>: the six codes this handler raises, and
  \<^verbatim>\<open>PARAM_MISSING_TOKEN\<close>, which the dependency resolver may raise. A
  \<^verbatim>\<open>FatalDiagnosticError\<close> is built from a code, the offending node and a message.
  In the words of the specification the codes are, in this order, AnnotationArgumentNotLiteral,
  AnnotationArityWrong, AnnotationNotInvoked, AnonymousDeclaration, RequiredFieldMissing,
  FieldWrongType and DependencyResolutionFailed.
\<close>

datatype ErrorCode =
    DECORATOR_ARG_NOT_LITERAL
  | DECORATOR_ARITY_WRONG
  | DECORATOR_NOT_CALLED
  | DECORATOR_ON_ANONYMOUS_CLASS
  | PIPE_MISSING_NAME
  | VALUE_HAS_WRONG_TYPE
  | PARAM_MISSING_TOKEN

record FatalDiagnosticError =
  code :: ErrorCode
  node :: Node
  message :: string

text \<open>\<^verbatim>\<open>new Reference(clazz)\<close> of \<^verbatim>\<open>../../imports\<close>.\<close>

datatype Reference = Reference ClassDeclaration

text \<open>
  What \<^verbatim>\<open>PartialEvaluator.evaluate\<close> returns: a string, a boolean, a number, a
  structured object, a reference to a declaration, or a value it could not determine.
  \<^verbatim>\<open>typeof v === 'string'\<close> holds of \<open>VString\<close> values only and
  \<^verbatim>\<open>typeof v === 'boolean'\<close> of \<open>VBoolean\<close> values only.
\<close>

datatype ResolvedValue =
    VString string
  | VBoolean bool
  | VNumber int
  | VObject "(string \<times> ResolvedValue) list"
  | VReference Reference
  | VUnknown

text \<open>The argument of \<^verbatim>\<open>LocalModuleScopeRegistry.registerPipe\<close>.\<close>

record ScopePipe =
  ref :: Reference
  name :: string

subsection \<open>Output syntax of the compiler\<close>

text \<open>
  Expressions, statements and types of the output AST of \<^verbatim>\<open>@angular/compiler\<close>.
  The handler builds \<^verbatim>\<open>WrappedNodeExpr\<close> itself; the others come from the emitter and
  from the metadata generator.
\<close>

datatype OutputExpression =
    WrappedNodeExpr Identifier
  | LiteralExpr ResolvedValue
  | InvokeFunctionExpr string "OutputExpression list"

datatype Statement = ExpressionStatement OutputExpression

datatype OutputType = ExpressionType OutputExpression

datatype R3DependencyMetadata = R3DependencyMetadata OutputExpression

record R3PipeMetadata =
  name :: string
  type :: OutputExpression
  pipeName :: string
  deps :: "R3DependencyMetadata list"
  pure :: bool

text \<open>The interface \<^verbatim>\<open>PipeHandlerData\<close> (lines 22-25).\<close>

record PipeHandlerData =
  meta :: R3PipeMetadata
  metadataStmt :: "Statement option"

text \<open>
  \<^verbatim>\<open>AnalysisOutput\<close>, \<^verbatim>\<open>DetectResult\<close> and \<^verbatim>\<open>CompileResult\<close> of \<^verbatim>\<open>../../transform\<close>,
  with the fields the handler fills, and the result of \<^verbatim>\<open>compilePipeFromMetadata\<close>.
\<close>

record AnalysisOutput =
  analysis :: PipeHandlerData

record DetectResult =
  trigger :: Node
  metadata :: Decorator

record R3PipeDef =
  expression :: OutputExpression
  type :: OutputType
  statements :: "Statement list"

record CompileResult =
  name :: string
  initializer :: OutputExpression
  statements :: "Statement list"
  type :: OutputType

subsection \<open>The handler and its collaborators\<close>

text \<open>
  The constructor's \<^verbatim>\<open>isCore\<close>, and the functions the handler calls but does not
  define: \<^verbatim>\<open>this.evaluator.evaluate\<close>, and the imported \<^verbatim>\<open>isAngularCore\<close>,
  \<^verbatim>\<open>unwrapExpression\<close>, \<^verbatim>\<open>reflectObjectLiteral\<close>, \<^verbatim>\<open>getValidConstructorDependencies\<close>,
  \<^verbatim>\<open>generateSetClassMetadataCall\<close> (both applied to \<^verbatim>\<open>this.reflector\<close>, which is fixed
  with the handler) and \<^verbatim>\<open>compilePipeFromMetadata\<close>. The dependency resolver returns
  its list or throws a diagnostic of its own (\<open>Inl\<close>).
\<close>

record PipeDecoratorHandler =
  isCore :: bool
  evaluate :: "Expression \<Rightarrow> ResolvedValue"
  isAngularCore :: "Decorator \<Rightarrow> bool"
  unwrapExpression :: "Expression \<Rightarrow> Expression"
  reflectObjectLiteral :: "Expression \<Rightarrow> (string \<rightharpoonup> Expression)"
  getValidConstructorDependencies ::
    "ClassDeclaration \<Rightarrow> bool \<Rightarrow> FatalDiagnosticError + R3DependencyMetadata list"
  generateSetClassMetadataCall :: "ClassDeclaration \<Rightarrow> bool \<Rightarrow> Statement option"
  compilePipeFromMetadata :: "R3PipeMetadata \<Rightarrow> R3PipeDef"

text \<open>
  The calls \<open>analyze\<close> makes on the handler's collaborators, in the order it makes
  them. \<^verbatim>\<open>this.scopeRegistry.registerPipe\<close> returns nothing: the call itself is the
  write to the registry, and the registry is known here by the writes it has received.
  The other three calls also return a value, which the handler record gives.
\<close>

datatype Call =
    evaluate_call Expression
  | registerPipe_call ScopePipe
  | getValidConstructorDependencies_call ClassDeclaration bool
  | generateSetClassMetadataCall_call ClassDeclaration bool

type_synonym Calls = "Call list"

text \<open>The registry writes among the calls made so far.\<close>

fun registered :: "Calls \<Rightarrow> ScopePipe list" where
  "registered [] = []"
| "registered (registerPipe_call p # cs) = p # registered cs"
| "registered (c # cs) = registered cs"

text \<open>The expressions handed to the evaluator among the calls made so far.\<close>

fun evaluated :: "Calls \<Rightarrow> Expression list" where
  "evaluated [] = []"
| "evaluated (evaluate_call e # cs) = e # evaluated cs"
| "evaluated (c # cs) = evaluated cs"

subsection \<open>detect (lines 34-48)\<close>

definition detect ::
  "PipeDecoratorHandler \<Rightarrow> Node \<Rightarrow> Decorator list option \<Rightarrow> DetectResult option" where
  "detect h declaration decorators =
     (case decorators of
        None \<Rightarrow> None
      | Some ds \<Rightarrow>
          (case find (\<lambda>decorator. Decorator.name decorator = ''Pipe'' \<and>
                                  (isCore h \<or> isAngularCore h decorator)) ds of
             Some decorator \<Rightarrow>
               Some \<lparr>trigger = Decorator.node decorator, metadata = decorator\<rparr>
           | None \<Rightarrow> None))"

subsection \<open>analyze (lines 50-107)\<close>

text \<open>
  \<^verbatim>\<open>throw new FatalDiagnosticError(code, node, message)\<close>: the method ends with the
  diagnostic; the calls made before it stay made.
\<close>

definition throw ::
  "ErrorCode \<Rightarrow> Node \<Rightarrow> string \<Rightarrow> Calls \<Rightarrow> (FatalDiagnosticError + 'a) \<times> Calls" where
  "throw c n m calls = (Inl \<lparr>code = c, node = n, message = m\<rparr>, calls)"

text \<open>
  Lines 85-94: the optional \<^verbatim>\<open>pure\<close> field. \<open>pipe\<close> is the map that
  \<^verbatim>\<open>reflectObjectLiteral\<close> returned; \<^verbatim>\<open>pipe.has('pure')\<close> is \<open>pipe ''pure'' \<noteq> None\<close>.
\<close>

definition analyze_pure ::
  "PipeDecoratorHandler \<Rightarrow> (string \<rightharpoonup> Expression) \<Rightarrow> Calls \<Rightarrow>
     (FatalDiagnosticError + bool) \<times> Calls" where
  "analyze_pure h pipe calls =
     (case pipe ''pure'' of
        None \<Rightarrow> (Inr True, calls)
      | Some expr \<Rightarrow>
          (case evaluate h expr of
             VBoolean pureValue \<Rightarrow> (Inr pureValue, calls @ [evaluate_call expr])
           | other \<Rightarrow>
               throw VALUE_HAS_WRONG_TYPE (ExpressionNode expr)
                 ''@Pipe.pure must be a boolean'' (calls @ [evaluate_call expr])))"

text \<open>
  Lines 96-106: the returned object. Its fields are evaluated in the order written, so
  the dependencies are resolved first, and the metadata statement is generated only when
  that did not throw.
\<close>

definition analyze_output ::
  "PipeDecoratorHandler \<Rightarrow> ClassDeclaration \<Rightarrow> Identifier \<Rightarrow> string \<Rightarrow> bool \<Rightarrow> Calls \<Rightarrow>
     (FatalDiagnosticError + AnalysisOutput) \<times> Calls" where
  "analyze_output h clazz clazz_name pipeName' pure' calls =
     (case getValidConstructorDependencies h clazz (isCore h) of
        Inl e \<Rightarrow> (Inl e, calls @ [getValidConstructorDependencies_call clazz (isCore h)])
      | Inr deps' \<Rightarrow>
          (Inr \<lparr>analysis =
                 \<lparr>meta = \<lparr>R3PipeMetadata.name = text clazz_name,
                          type = WrappedNodeExpr clazz_name,
                          pipeName = pipeName',
                          deps = deps',
                          pure = pure'\<rparr>,
                  metadataStmt = generateSetClassMetadataCall h clazz (isCore h)\<rparr>\<rparr>,
           calls @ [getValidConstructorDependencies_call clazz (isCore h),
                    generateSetClassMetadataCall_call clazz (isCore h)]))"

text \<open>
  The whole method; a local variable that shares its name with a field of a record
  (\<^verbatim>\<open>meta\<close>, \<^verbatim>\<open>pipeName\<close>, \<^verbatim>\<open>pure\<close>) is written with a prime. It takes the calls made so far and returns them extended, with
  either the diagnostic thrown (\<open>Inl\<close>) or the analysis returned (\<open>Inr\<close>).
\<close>

definition analyze ::
  "PipeDecoratorHandler \<Rightarrow> ClassDeclaration \<Rightarrow> Decorator \<Rightarrow> Calls \<Rightarrow>
     (FatalDiagnosticError + AnalysisOutput) \<times> Calls" where
  "analyze h clazz decorator calls =
     (case ClassDeclaration.name clazz of
        None \<Rightarrow>
          throw DECORATOR_ON_ANONYMOUS_CLASS (ClassDeclarationNode clazz)
            ''@Pipes must have names'' calls
      | Some clazz_name \<Rightarrow>
          (case args decorator of
             None \<Rightarrow>
               throw DECORATOR_NOT_CALLED (Decorator.node decorator)
                 ''@Pipe must be called'' calls
           | Some decorator_args \<Rightarrow>
               if length decorator_args \<noteq> 1 then
                 throw DECORATOR_ARITY_WRONG (Decorator.node decorator)
                   ''@Pipe must have exactly one argument'' calls
               else
                 let meta' = unwrapExpression h (decorator_args ! 0) in
                 if \<not> isObjectLiteralExpression meta' then
                   throw DECORATOR_ARG_NOT_LITERAL (ExpressionNode meta')
                     ''@Pipe must have a literal argument'' calls
                 else
                   let pipe = reflectObjectLiteral h meta' in
                   (case pipe ''name'' of
                      None \<Rightarrow>
                        throw PIPE_MISSING_NAME (ExpressionNode meta')
                          ''@Pipe decorator is missing name field'' calls
                    | Some pipeNameExpr \<Rightarrow>
                        (case evaluate h pipeNameExpr of
                           VString pipeName' \<Rightarrow>
                             (case analyze_pure h pipe
                                     (calls @ [evaluate_call pipeNameExpr,
                                               registerPipe_call
                                                 \<lparr>ref = Reference clazz,
                                                  ScopePipe.name = pipeName'\<rparr>]) of
                                (Inl e, calls') \<Rightarrow> (Inl e, calls')
                              | (Inr pure', calls') \<Rightarrow>
                                  analyze_output h clazz clazz_name pipeName' pure' calls')
                         | other \<Rightarrow>
                             throw VALUE_HAS_WRONG_TYPE (ExpressionNode pipeNameExpr)
                               ''@Pipe.name must be a string''
                               (calls @ [evaluate_call pipeNameExpr])))))"

subsection \<open>compile (lines 109-120)\<close>

text \<open>
  \<^verbatim>\<open>statements.push\<close> appends to the array the emitter returned; the declaration
  \<open>declaration\<close> is a parameter of the method.
\<close>

definition compile ::
  "PipeDecoratorHandler \<Rightarrow> ClassDeclaration \<Rightarrow> PipeHandlerData \<Rightarrow> CompileResult" where
  "compile h declaration a =
     (let res = compilePipeFromMetadata h (meta a);
          statements =
            (case metadataStmt a of
               Some stmt \<Rightarrow> R3PipeDef.statements res @ [stmt]
             | None \<Rightarrow> R3PipeDef.statements res)
      in \<lparr>CompileResult.name = ''ngPipeDef'',
          initializer = expression res,
          statements = statements,
          type = R3PipeDef.type res\<rparr>)"

subsection \<open>Collaborators and inputs for the examples\<close>

text \<open>
  Modelled from the spec: \<^verbatim>\<open>unwrapExpression\<close> of \<^verbatim>\<open>./util\<close>, which is imported
  and not defined in \<^verbatim>\<open>pipe.ts\<close>. The specification: "unwrapping any trivial wrapping
  expression (e.g., parenthesization or as-style type assertions)".
\<close>

fun unwrapExpression_spec :: "Expression \<Rightarrow> Expression" where
  "unwrapExpression_spec (ParenthesizedExpression e) = unwrapExpression_spec e"
| "unwrapExpression_spec (AsExpression e t) = unwrapExpression_spec e"
| "unwrapExpression_spec e = e"

text \<open>
  Modelled from the spec: \<^verbatim>\<open>reflectObjectLiteral\<close> of \<^verbatim>\<open>../../reflection\<close>, imported
  and not defined in \<^verbatim>\<open>pipe.ts\<close>. The specification: "model the literal as a mapping
  from field name to expression node (keys unique, order irrelevant), queried with
  explicit presence checks".
\<close>

fun reflectObjectLiteral_spec :: "Expression \<Rightarrow> (string \<rightharpoonup> Expression)" where
  "reflectObjectLiteral_spec (ObjectLiteralExpression properties) = map_of properties"
| "reflectObjectLiteral_spec other = Map.empty"

text \<open>
  Modelled from the spec: \<^verbatim>\<open>PartialEvaluator.evaluate\<close> of \<^verbatim>\<open>../../partial_evaluator\<close>,
  imported and not defined in \<^verbatim>\<open>pipe.ts\<close>. The specification: "given an expression
  node, attempts to reduce it to a compile-time value (string, boolean, number, object,
  reference, or unknown)". Here literals reduce to their values, through parentheses
  and type assertions, and everything else is unknown.
\<close>

fun evaluate_spec :: "Expression \<Rightarrow> ResolvedValue" where
  "evaluate_spec (StringLiteral s) = VString s"
| "evaluate_spec (NumericLiteral n) = VNumber n"
| "evaluate_spec TrueKeyword = VBoolean True"
| "evaluate_spec FalseKeyword = VBoolean False"
| "evaluate_spec (ParenthesizedExpression e) = evaluate_spec e"
| "evaluate_spec (AsExpression e t) = evaluate_spec e"
| "evaluate_spec other = VUnknown"

text \<open>
  Modelled from the spec: \<^verbatim>\<open>isAngularCore\<close> of \<^verbatim>\<open>./util\<close>, imported and not defined
  in \<^verbatim>\<open>pipe.ts\<close>. The specification: "an explicit origin marker resolves to the
  trusted core"; the marker is the decorator's import and the trusted core is
  \<^verbatim>\<open>@angular/core\<close>.
\<close>

definition isAngularCore_spec :: "Decorator \<Rightarrow> bool" where
  "isAngularCore_spec decorator =
     (case import decorator of None \<Rightarrow> False | Some i \<Rightarrow> from i = ''@angular/core'')"

text \<open>
  Modelled from the spec: \<^verbatim>\<open>getValidConstructorDependencies\<close> of \<^verbatim>\<open>./util\<close>,
  imported and not defined in \<^verbatim>\<open>pipe.ts\<close>. The specification gives its interface
  only: "resolveConstructorDependencies(declaration) -> ordered sequence of dependency
  descriptors, may itself fail". The stand-in is the resolver on a class whose
  constructor has no parameters: the dependencies are the empty list.
\<close>

definition getValidConstructorDependencies_spec ::
  "ClassDeclaration \<Rightarrow> bool \<Rightarrow> FatalDiagnosticError + R3DependencyMetadata list" where
  "getValidConstructorDependencies_spec clazz core = Inr []"

text \<open>
  Modelled from the spec: \<^verbatim>\<open>generateSetClassMetadataCall\<close> of \<^verbatim>\<open>./metadata\<close>,
  imported and not defined in \<^verbatim>\<open>pipe.ts\<close>. The specification gives its interface
  only: "generateMetadataStatement(declaration) -> Statement | absent". The stand-in
  generates no statement.
\<close>

definition generateSetClassMetadataCall_spec ::
  "ClassDeclaration \<Rightarrow> bool \<Rightarrow> Statement option" where
  "generateSetClassMetadataCall_spec clazz core = None"

text \<open>
  Modelled from the spec: \<^verbatim>\<open>compilePipeFromMetadata\<close> of \<^verbatim>\<open>@angular/compiler\<close>,
  imported and not defined in \<^verbatim>\<open>pipe.ts\<close>. The specification gives its interface
  only: "emit(metadataRecord) -> { initializerExpression, statementSequence,
  typeExpression }". The stand-in emits a definition call over the fields of the record,
  and two statements, so that their order can be seen.
\<close>

definition compilePipeFromMetadata_spec :: "R3PipeMetadata \<Rightarrow> R3PipeDef" where
  "compilePipeFromMetadata_spec m =
     \<lparr>expression =
        InvokeFunctionExpr ''definePipe''
          [LiteralExpr (VString (pipeName m)), R3PipeMetadata.type m,
           LiteralExpr (VBoolean (pure m))],
      type = ExpressionType (R3PipeMetadata.type m),
      statements =
        [ExpressionStatement (LiteralExpr (VString (R3PipeMetadata.name m))),
         ExpressionStatement (LiteralExpr (VString (pipeName m)))]\<rparr>"

text \<open>A handler outside the core library (\<^verbatim>\<open>isCore\<close> is false) over these stand-ins.\<close>

definition example_handler :: PipeDecoratorHandler where
  "example_handler =
     \<lparr>isCore = False,
      evaluate = evaluate_spec,
      isAngularCore = isAngularCore_spec,
      unwrapExpression = unwrapExpression_spec,
      reflectObjectLiteral = reflectObjectLiteral_spec,
      getValidConstructorDependencies = getValidConstructorDependencies_spec,
      generateSetClassMetadataCall = generateSetClassMetadataCall_spec,
      compilePipeFromMetadata = compilePipeFromMetadata_spec\<rparr>"

text \<open>
  \<^verbatim>\<open>class UpperCasePipe\<close>, an anonymous class, and a decorator \<^verbatim>\<open>Pipe\<close> imported from
  \<open>origin\<close>, at position \<open>p\<close>, with the arguments \<open>arguments\<close>.
\<close>

definition UpperCasePipe :: ClassDeclaration where
  "UpperCasePipe = \<lparr>ClassDeclaration.name = Some \<lparr>text = ''UpperCasePipe''\<rparr>, pos = 120\<rparr>"

definition anonymous_class :: ClassDeclaration where
  "anonymous_class = \<lparr>ClassDeclaration.name = None, pos = 300\<rparr>"

definition Pipe_from :: "string \<Rightarrow> nat \<Rightarrow> Expression list option \<Rightarrow> Decorator" where
  "Pipe_from origin p arguments =
     \<lparr>Decorator.name = ''Pipe'',
      import = Some \<lparr>Import.name = ''Pipe'', from = origin\<rparr>,
      node = DecoratorNode p,
      args = arguments\<rparr>"

text \<open>
  Four decorators of one declaration, in declaration order: \<^verbatim>\<open>Injectable\<close>, a \<^verbatim>\<open>Pipe\<close>
  of another library, and two \<^verbatim>\<open>Pipe\<close> decorators of \<^verbatim>\<open>@angular/core\<close>.
\<close>

definition example_decorators :: "Decorator list" where
  "example_decorators =
     [\<lparr>Decorator.name = ''Injectable'',
       import = Some \<lparr>Import.name = ''Injectable'', from = ''@angular/core''\<rparr>,
       node = DecoratorNode 1, args = Some []\<rparr>,
      Pipe_from ''my-library'' 2 None,
      Pipe_from ''@angular/core'' 3 (Some [ObjectLiteralExpression []]),
      Pipe_from ''@angular/core'' 4 None]"

section \<open>Properties\<close>

subsection \<open>Auxiliary facts\<close>

text \<open>The registry writes and the evaluations of a sequence of calls, piecewise.\<close>

lemma registered_append: "registered (xs @ ys) = registered xs @ registered ys"
  by (induction xs rule: registered.induct) simp_all

lemma evaluated_append: "evaluated (xs @ ys) = evaluated xs @ evaluated ys"
  by (induction xs rule: evaluated.induct) simp_all

text \<open>\<open>find\<close> returns the element at the least index that satisfies the test.\<close>

lemma find_first_index:
  "find P xs = Some x \<longleftrightarrow> (\<exists>i<length xs. P (xs ! i) \<and> (\<forall>j<i. \<not> P (xs ! j)) \<and> x = xs ! i)"
  by (auto simp: find_Some_iff)

lemma detect_Some:
  "detect h declaration (Some ds) =
     map_option (\<lambda>d. \<lparr>trigger = Decorator.node d, metadata = d\<rparr>)
       (find (\<lambda>d. Decorator.name d = ''Pipe'' \<and> (isCore h \<or> isAngularCore h d)) ds)"
  by (simp add: detect_def split: option.splits)

text \<open>
  Once the declaration is named and the decorator has one argument that unwraps to an
  object literal with a \<^verbatim>\<open>name\<close> field, \<open>analyze\<close> is at line 76.
\<close>

lemma analyze_named_literal:
  assumes "ClassDeclaration.name clazz = Some n"
    and "args decorator = Some [arg]"
    and "isObjectLiteralExpression (unwrapExpression h arg)"
    and "reflectObjectLiteral h (unwrapExpression h arg) ''name'' = Some ne"
  shows "analyze h clazz decorator calls =
     (case evaluate h ne of
        VString s \<Rightarrow>
          (case analyze_pure h (reflectObjectLiteral h (unwrapExpression h arg))
                  (calls @ [evaluate_call ne,
                            registerPipe_call \<lparr>ref = Reference clazz, ScopePipe.name = s\<rparr>]) of
             (Inl e, calls') \<Rightarrow> (Inl e, calls')
           | (Inr p, calls') \<Rightarrow> analyze_output h clazz n s p calls')
      | other \<Rightarrow>
          throw VALUE_HAS_WRONG_TYPE (ExpressionNode ne) ''@Pipe.name must be a string''
            (calls @ [evaluate_call ne]))"
  using assms by (simp add: analyze_def Let_def)

text \<open>The three outcomes of lines 85-94, and the calls they and lines 96-106 add.\<close>

lemma analyze_pure_absent:
  "pipe ''pure'' = None \<Longrightarrow> analyze_pure h pipe calls = (Inr True, calls)"
  by (simp add: analyze_pure_def)

lemma analyze_pure_boolean:
  "pipe ''pure'' = Some pe \<Longrightarrow> evaluate h pe = VBoolean b \<Longrightarrow>
   analyze_pure h pipe calls = (Inr b, calls @ [evaluate_call pe])"
  by (simp add: analyze_pure_def)

lemma analyze_pure_not_boolean:
  "pipe ''pure'' = Some pe \<Longrightarrow> \<forall>b. evaluate h pe \<noteq> VBoolean b \<Longrightarrow>
   analyze_pure h pipe calls =
     (Inl \<lparr>code = VALUE_HAS_WRONG_TYPE, node = ExpressionNode pe,
           message = ''@Pipe.pure must be a boolean''\<rparr>, calls @ [evaluate_call pe])"
  by (cases "evaluate h pe") (auto simp: analyze_pure_def throw_def)

lemma analyze_pure_calls:
  "\<exists>rest. snd (analyze_pure h pipe calls) = calls @ rest \<and> registered rest = []"
  by (cases "pipe ''pure''"; cases "evaluate h (the (pipe ''pure''))")
     (simp_all add: analyze_pure_def throw_def)

lemma analyze_output_calls:
  "\<exists>rest. snd (analyze_output h clazz n s p calls) = calls @ rest \<and> registered rest = []"
  by (cases "getValidConstructorDependencies h clazz (isCore h)")
     (simp_all add: analyze_output_def)

lemma analyze_output_resolved:
  "getValidConstructorDependencies h clazz (isCore h) = Inr ds \<Longrightarrow>
   fst (analyze_output h clazz n s p calls) =
     Inr \<lparr>analysis =
           \<lparr>meta = \<lparr>R3PipeMetadata.name = text n, type = WrappedNodeExpr n, pipeName = s,
                    deps = ds, pure = p\<rparr>,
            metadataStmt = generateSetClassMetadataCall h clazz (isCore h)\<rparr>\<rparr>"
  by (simp add: analyze_output_def)

subsection \<open>C1\<close>

text \<open>
  Claim C1 (end-to-end scenario 1). The declaration is named \<^verbatim>\<open>UpperCasePipe\<close> and its
  decorator is called with the single argument \<^verbatim>\<open>{ name: 'uppercase' }\<close>; unwrapping
  leaves the literal as it is, the literal has the field \<^verbatim>\<open>name\<close> and no field
  \<^verbatim>\<open>pure\<close>, the evaluator reduces \<^verbatim>\<open>'uppercase'\<close> to the string \<open>uppercase\<close>, and the
  dependency resolver yields the empty list. Then \<open>analyze\<close> returns an analysis whose
  metadata has name \<open>UpperCasePipe\<close>, pipeName \<open>uppercase\<close>, pure true and no
  dependencies, and \<open>compile\<close> on it returns an artifact named \<open>ngPipeDef\<close> whose
  initializer is the expression the emitter produced for that metadata (an expression of
  the output AST: the type has no null).
\<close>

theorem scenario_UpperCasePipe:
  assumes "ClassDeclaration.name clazz = Some \<lparr>text = ''UpperCasePipe''\<rparr>"
    and "Decorator.name decorator = ''Pipe''"
    and "args decorator = Some [ObjectLiteralExpression [(''name'', StringLiteral ''uppercase'')]]"
    and "unwrapExpression h (ObjectLiteralExpression [(''name'', StringLiteral ''uppercase'')]) =
           ObjectLiteralExpression [(''name'', StringLiteral ''uppercase'')]"
    and "reflectObjectLiteral h (ObjectLiteralExpression [(''name'', StringLiteral ''uppercase'')])
           ''name'' = Some (StringLiteral ''uppercase'')"
    and "reflectObjectLiteral h (ObjectLiteralExpression [(''name'', StringLiteral ''uppercase'')])
           ''pure'' = None"
    and "evaluate h (StringLiteral ''uppercase'') = VString ''uppercase''"
    and "getValidConstructorDependencies h clazz (isCore h) = Inr []"
  shows "\<exists>out. fst (analyze h clazz decorator calls) = Inr out \<and>
           R3PipeMetadata.name (meta (analysis out)) = ''UpperCasePipe'' \<and>
           pipeName (meta (analysis out)) = ''uppercase'' \<and>
           pure (meta (analysis out)) = True \<and>
           deps (meta (analysis out)) = [] \<and>
           CompileResult.name (compile h clazz (analysis out)) = ''ngPipeDef'' \<and>
           initializer (compile h clazz (analysis out)) =
             expression (compilePipeFromMetadata h (meta (analysis out)))"
proof -
  let ?lit = "ObjectLiteralExpression [(''name'', StringLiteral ''uppercase'')]"
  have lit: "isObjectLiteralExpression (unwrapExpression h ?lit)"
    by (simp add: assms(4))
  have name: "reflectObjectLiteral h (unwrapExpression h ?lit) ''name'' =
                Some (StringLiteral ''uppercase'')"
    by (simp add: assms(4) assms(5))
  have absent: "reflectObjectLiteral h (unwrapExpression h ?lit) ''pure'' = None"
    by (simp add: assms(4) assms(6))
  have "fst (analyze h clazz decorator calls) =
     Inr \<lparr>analysis =
           \<lparr>meta = \<lparr>R3PipeMetadata.name = ''UpperCasePipe'',
                    type = WrappedNodeExpr \<lparr>text = ''UpperCasePipe''\<rparr>,
                    pipeName = ''uppercase'', deps = [], pure = True\<rparr>,
            metadataStmt = generateSetClassMetadataCall h clazz (isCore h)\<rparr>\<rparr>"
    by (simp add: analyze_named_literal [OF assms(1) assms(3) lit name] assms(7)
          analyze_pure_absent absent analyze_output_resolved [OF assms(8)])
  then show ?thesis
    by (simp add: compile_def Let_def)
qed

theorem scenario_UpperCasePipe_witness:
  "\<exists>out. fst (analyze example_handler UpperCasePipe
                (Pipe_from ''@angular/core'' 7
                   (Some [ObjectLiteralExpression [(''name'', StringLiteral ''uppercase'')]]))
                []) = Inr out \<and>
         R3PipeMetadata.name (meta (analysis out)) = ''UpperCasePipe'' \<and>
         pipeName (meta (analysis out)) = ''uppercase'' \<and>
         pure (meta (analysis out)) = True \<and>
         deps (meta (analysis out)) = [] \<and>
         CompileResult.name (compile example_handler UpperCasePipe (analysis out)) = ''ngPipeDef'' \<and>
         initializer (compile example_handler UpperCasePipe (analysis out)) =
           InvokeFunctionExpr ''definePipe''
             [LiteralExpr (VString ''uppercase''),
              WrappedNodeExpr \<lparr>text = ''UpperCasePipe''\<rparr>,
              LiteralExpr (VBoolean True)]"
proof -
  have "\<exists>out. fst (analyze example_handler UpperCasePipe
                (Pipe_from ''@angular/core'' 7
                   (Some [ObjectLiteralExpression [(''name'', StringLiteral ''uppercase'')]]))
                []) = Inr out \<and>
           R3PipeMetadata.name (meta (analysis out)) = ''UpperCasePipe'' \<and>
           pipeName (meta (analysis out)) = ''uppercase'' \<and>
           pure (meta (analysis out)) = True \<and>
           deps (meta (analysis out)) = [] \<and>
           CompileResult.name (compile example_handler UpperCasePipe (analysis out)) = ''ngPipeDef'' \<and>
           initializer (compile example_handler UpperCasePipe (analysis out)) =
             expression (compilePipeFromMetadata example_handler (meta (analysis out)))"
    by (rule scenario_UpperCasePipe)
       (simp_all add: UpperCasePipe_def Pipe_from_def example_handler_def
          getValidConstructorDependencies_spec_def)
  then obtain out where out:
    "fst (analyze example_handler UpperCasePipe
                (Pipe_from ''@angular/core'' 7
                   (Some [ObjectLiteralExpression [(''name'', StringLiteral ''uppercase'')]]))
                []) = Inr out"
    "R3PipeMetadata.name (meta (analysis out)) = ''UpperCasePipe''"
    "pipeName (meta (analysis out)) = ''uppercase''"
    "pure (meta (analysis out)) = True"
    "deps (meta (analysis out)) = []"
    "CompileResult.name (compile example_handler UpperCasePipe (analysis out)) = ''ngPipeDef''"
    "initializer (compile example_handler UpperCasePipe (analysis out)) =
             expression (compilePipeFromMetadata example_handler (meta (analysis out)))"
    by blast
  from out(1) have "out = \<lparr>analysis =
           \<lparr>meta = \<lparr>R3PipeMetadata.name = ''UpperCasePipe'',
                    type = WrappedNodeExpr \<lparr>text = ''UpperCasePipe''\<rparr>,
                    pipeName = ''uppercase'', deps = [], pure = True\<rparr>,
            metadataStmt = None\<rparr>\<rparr>"
    by (simp add: analyze_def analyze_pure_def analyze_output_def Let_def UpperCasePipe_def
          Pipe_from_def example_handler_def getValidConstructorDependencies_spec_def
          generateSetClassMetadataCall_spec_def)
  with out show ?thesis
    by (simp add: example_handler_def compilePipeFromMetadata_spec_def)
qed

subsection \<open>C2\<close>

text \<open>
  Claim C2. When the \<^verbatim>\<open>name\<close> field evaluates to a string \<open>s\<close>, the pair of the
  reference to the declaration and \<open>s\<close> is written to the registry, whatever the
  \<^verbatim>\<open>pure\<close> field and the dependency resolution do afterwards: the writes in the calls
  returned are the earlier ones and this one; the write is the call right after the
  evaluation of the name, and every later call (the evaluation of \<^verbatim>\<open>pure\<close>, the
  dependency resolution) comes after it. In particular, when \<^verbatim>\<open>pure\<close> is present and
  does not evaluate to a boolean, \<open>analyze\<close> throws \<open>VALUE_HAS_WRONG_TYPE\<close> and the write
  is among the calls made: it is not undone.
\<close>

theorem analyze_registers_pipe:
  assumes "ClassDeclaration.name clazz = Some n"
    and "args decorator = Some [arg]"
    and "isObjectLiteralExpression (unwrapExpression h arg)"
    and "reflectObjectLiteral h (unwrapExpression h arg) ''name'' = Some ne"
    and "evaluate h ne = VString s"
  shows "registered (snd (analyze h clazz decorator calls)) =
           registered calls @ [\<lparr>ref = Reference clazz, ScopePipe.name = s\<rparr>] \<and>
         (\<exists>rest. snd (analyze h clazz decorator calls) =
            calls @ [evaluate_call ne,
                     registerPipe_call \<lparr>ref = Reference clazz, ScopePipe.name = s\<rparr>] @ rest) \<and>
         (\<forall>pe. reflectObjectLiteral h (unwrapExpression h arg) ''pure'' = Some pe \<and>
                (\<forall>b. evaluate h pe \<noteq> VBoolean b) \<longrightarrow>
            analyze h clazz decorator calls =
              (Inl \<lparr>code = VALUE_HAS_WRONG_TYPE, node = ExpressionNode pe,
                    message = ''@Pipe.pure must be a boolean''\<rparr>,
               calls @ [evaluate_call ne,
                        registerPipe_call \<lparr>ref = Reference clazz, ScopePipe.name = s\<rparr>,
                        evaluate_call pe]))"
proof -
  let ?pipe = "reflectObjectLiteral h (unwrapExpression h arg)"
  let ?c2 = "calls @ [evaluate_call ne,
                      registerPipe_call \<lparr>ref = Reference clazz, ScopePipe.name = s\<rparr>]"
  have red: "analyze h clazz decorator calls =
     (case analyze_pure h ?pipe ?c2 of
        (Inl e, calls') \<Rightarrow> (Inl e, calls')
      | (Inr p, calls') \<Rightarrow> analyze_output h clazz n s p calls')"
    using assms(5) by (simp add: analyze_named_literal [OF assms(1-4)])
  obtain r1 where r1: "snd (analyze_pure h ?pipe ?c2) = ?c2 @ r1" "registered r1 = []"
    using analyze_pure_calls by blast
  have "\<exists>rest. snd (analyze h clazz decorator calls) = ?c2 @ rest \<and> registered rest = []"
  proof (cases "analyze_pure h ?pipe ?c2")
    case (Pair res c3)
    with r1 have c3: "c3 = ?c2 @ r1" by simp
    show ?thesis
    proof (cases res)
      case (Inl e)
      with Pair c3 r1(2) show ?thesis by (simp add: red)
    next
      case (Inr p)
      obtain r2 where r2: "snd (analyze_output h clazz n s p c3) = c3 @ r2" "registered r2 = []"
        using analyze_output_calls by blast
      with Pair Inr c3 r1(2) show ?thesis by (simp add: red registered_append)
    qed
  qed
  then obtain rest where rest: "snd (analyze h clazz decorator calls) = ?c2 @ rest"
      "registered rest = []" by blast
  have a: "registered (snd (analyze h clazz decorator calls)) =
           registered calls @ [\<lparr>ref = Reference clazz, ScopePipe.name = s\<rparr>]"
    by (simp add: rest registered_append)
  have b: "\<exists>rest. snd (analyze h clazz decorator calls) =
            calls @ [evaluate_call ne,
                     registerPipe_call \<lparr>ref = Reference clazz, ScopePipe.name = s\<rparr>] @ rest"
    using rest(1) by auto
  have c: "\<forall>pe. ?pipe ''pure'' = Some pe \<and> (\<forall>b. evaluate h pe \<noteq> VBoolean b) \<longrightarrow>
            analyze h clazz decorator calls =
              (Inl \<lparr>code = VALUE_HAS_WRONG_TYPE, node = ExpressionNode pe,
                    message = ''@Pipe.pure must be a boolean''\<rparr>,
               calls @ [evaluate_call ne,
                        registerPipe_call \<lparr>ref = Reference clazz, ScopePipe.name = s\<rparr>,
                        evaluate_call pe])"
    by (auto simp: red analyze_pure_not_boolean)
  from a b c show ?thesis by blast
qed

theorem analyze_registers_pipe_witness:
  "analyze example_handler UpperCasePipe
       (Pipe_from ''@angular/core'' 7
          (Some [ObjectLiteralExpression
                   [(''name'', StringLiteral ''uppercase''), (''pure'', StringLiteral ''yes'')]])) [] =
     (Inl \<lparr>code = VALUE_HAS_WRONG_TYPE, node = ExpressionNode (StringLiteral ''yes''),
           message = ''@Pipe.pure must be a boolean''\<rparr>,
      [evaluate_call (StringLiteral ''uppercase''),
       registerPipe_call \<lparr>ref = Reference UpperCasePipe, ScopePipe.name = ''uppercase''\<rparr>,
       evaluate_call (StringLiteral ''yes'')]) \<and>
   registered (snd (analyze example_handler UpperCasePipe
       (Pipe_from ''@angular/core'' 7
          (Some [ObjectLiteralExpression
                   [(''name'', StringLiteral ''uppercase''), (''pure'', StringLiteral ''yes'')]])) [])) =
     [\<lparr>ref = Reference UpperCasePipe, ScopePipe.name = ''uppercase''\<rparr>]"
  using
    analyze_registers_pipe [of UpperCasePipe "\<lparr>text = ''UpperCasePipe''\<rparr>"
      "Pipe_from ''@angular/core'' 7
         (Some [ObjectLiteralExpression
                  [(''name'', StringLiteral ''uppercase''), (''pure'', StringLiteral ''yes'')]])"
      "ObjectLiteralExpression
         [(''name'', StringLiteral ''uppercase''), (''pure'', StringLiteral ''yes'')]"
      example_handler "StringLiteral ''uppercase''" "''uppercase''" "[]"]
  by (simp add: UpperCasePipe_def Pipe_from_def example_handler_def)

subsection \<open>C3\<close>

text \<open>
  Claim C3. For a declaration without a name, \<open>analyze\<close> throws
  \<open>DECORATOR_ON_ANONYMOUS_CLASS\<close> and makes no call: the registry receives no write.
\<close>

theorem analyze_anonymous_class:
  "ClassDeclaration.name clazz = None \<Longrightarrow>
   analyze h clazz decorator calls =
     (Inl \<lparr>code = DECORATOR_ON_ANONYMOUS_CLASS, node = ClassDeclarationNode clazz,
           message = ''@Pipes must have names''\<rparr>, calls) \<and>
   registered (snd (analyze h clazz decorator calls)) = registered calls"
  by (simp add: analyze_def throw_def)

theorem analyze_anonymous_class_witness:
  "ClassDeclaration.name anonymous_class = None \<and>
   analyze example_handler anonymous_class
       (Pipe_from ''@angular/core'' 7 (Some [ObjectLiteralExpression [(''name'', StringLiteral ''uppercase'')]])) [] =
     (Inl \<lparr>code = DECORATOR_ON_ANONYMOUS_CLASS, node = ClassDeclarationNode anonymous_class,
           message = ''@Pipes must have names''\<rparr>, []) \<and>
   registered (snd (analyze example_handler anonymous_class
       (Pipe_from ''@angular/core'' 7 (Some [ObjectLiteralExpression [(''name'', StringLiteral ''uppercase'')]])) [])) = []"
  using analyze_anonymous_class [of anonymous_class example_handler
       "Pipe_from ''@angular/core'' 7 (Some [ObjectLiteralExpression [(''name'', StringLiteral ''uppercase'')]])" "[]"]
  by (simp add: anonymous_class_def)

subsection \<open>C4\<close>

text \<open>
  Claim C4. For a named declaration: when the decorator was not called (\<^verbatim>\<open>args\<close> is
  \<^verbatim>\<open>null\<close>), \<open>analyze\<close> throws \<open>DECORATOR_NOT_CALLED\<close> with no call made, so nothing has
  been evaluated; when it was called with a number of arguments other than one,
  \<open>analyze\<close> throws \<open>DECORATOR_ARITY_WRONG\<close>.
\<close>

theorem analyze_not_called_or_wrong_arity:
  "ClassDeclaration.name clazz = Some n \<Longrightarrow>
   (args decorator = None \<longrightarrow>
      analyze h clazz decorator calls =
        (Inl \<lparr>code = DECORATOR_NOT_CALLED, node = Decorator.node decorator,
              message = ''@Pipe must be called''\<rparr>, calls) \<and>
      evaluated (snd (analyze h clazz decorator calls)) = evaluated calls) \<and>
   (\<forall>arguments. args decorator = Some arguments \<and> length arguments \<noteq> 1 \<longrightarrow>
      analyze h clazz decorator calls =
        (Inl \<lparr>code = DECORATOR_ARITY_WRONG, node = Decorator.node decorator,
              message = ''@Pipe must have exactly one argument''\<rparr>, calls))"
  by (simp add: analyze_def throw_def)

theorem analyze_not_called_or_wrong_arity_witness:
  "ClassDeclaration.name UpperCasePipe = Some \<lparr>text = ''UpperCasePipe''\<rparr> \<and>
   analyze example_handler UpperCasePipe (Pipe_from ''@angular/core'' 7 None) [] =
     (Inl \<lparr>code = DECORATOR_NOT_CALLED, node = DecoratorNode 7,
           message = ''@Pipe must be called''\<rparr>, []) \<and>
   evaluated (snd (analyze example_handler UpperCasePipe
                     (Pipe_from ''@angular/core'' 7 None) [])) = [] \<and>
   analyze example_handler UpperCasePipe (Pipe_from ''@angular/core'' 7 (Some [])) [] =
     (Inl \<lparr>code = DECORATOR_ARITY_WRONG, node = DecoratorNode 7,
           message = ''@Pipe must have exactly one argument''\<rparr>, []) \<and>
   analyze example_handler UpperCasePipe
       (Pipe_from ''@angular/core'' 7
          (Some [ObjectLiteralExpression [(''name'', StringLiteral ''uppercase'')],
                 ObjectLiteralExpression []])) [] =
     (Inl \<lparr>code = DECORATOR_ARITY_WRONG, node = DecoratorNode 7,
           message = ''@Pipe must have exactly one argument''\<rparr>, [])"
  using
    analyze_not_called_or_wrong_arity [of UpperCasePipe "\<lparr>text = ''UpperCasePipe''\<rparr>"
      "Pipe_from ''@angular/core'' 7 None" example_handler "[]"]
    analyze_not_called_or_wrong_arity [of UpperCasePipe "\<lparr>text = ''UpperCasePipe''\<rparr>"
      "Pipe_from ''@angular/core'' 7 (Some [])" example_handler "[]"]
    analyze_not_called_or_wrong_arity [of UpperCasePipe "\<lparr>text = ''UpperCasePipe''\<rparr>"
      "Pipe_from ''@angular/core'' 7
         (Some [ObjectLiteralExpression [(''name'', StringLiteral ''uppercase'')],
                ObjectLiteralExpression []])" example_handler "[]"]
  by (simp add: UpperCasePipe_def Pipe_from_def)

subsection \<open>C5\<close>

text \<open>
  Claim C5. For a named declaration whose decorator has one argument: when the argument,
  unwrapped, is not an object literal, \<open>analyze\<close> throws \<open>DECORATOR_ARG_NOT_LITERAL\<close>;
  when it is an object literal without a \<^verbatim>\<open>name\<close> field, \<open>analyze\<close> throws
  \<open>PIPE_MISSING_NAME\<close> and the registry receives no write.
\<close>

theorem analyze_argument_shape:
  "ClassDeclaration.name clazz = Some n \<Longrightarrow> args decorator = Some [arg] \<Longrightarrow>
   (\<not> isObjectLiteralExpression (unwrapExpression h arg) \<longrightarrow>
      analyze h clazz decorator calls =
        (Inl \<lparr>code = DECORATOR_ARG_NOT_LITERAL, node = ExpressionNode (unwrapExpression h arg),
              message = ''@Pipe must have a literal argument''\<rparr>, calls)) \<and>
   (isObjectLiteralExpression (unwrapExpression h arg) \<and>
    reflectObjectLiteral h (unwrapExpression h arg) ''name'' = None \<longrightarrow>
      analyze h clazz decorator calls =
        (Inl \<lparr>code = PIPE_MISSING_NAME, node = ExpressionNode (unwrapExpression h arg),
              message = ''@Pipe decorator is missing name field''\<rparr>, calls) \<and>
      registered (snd (analyze h clazz decorator calls)) = registered calls)"
  by (simp add: analyze_def throw_def Let_def)

theorem analyze_argument_shape_witness:
  "analyze example_handler UpperCasePipe
       (Pipe_from ''@angular/core'' 7
          (Some [ParenthesizedExpression
                   (AsExpression (IdentifierExpression \<lparr>text = ''config''\<rparr>) ''any'')])) [] =
     (Inl \<lparr>code = DECORATOR_ARG_NOT_LITERAL,
           node = ExpressionNode (IdentifierExpression \<lparr>text = ''config''\<rparr>),
           message = ''@Pipe must have a literal argument''\<rparr>, []) \<and>
   analyze example_handler UpperCasePipe
       (Pipe_from ''@angular/core'' 7
          (Some [ObjectLiteralExpression [(''pure'', TrueKeyword)]])) [] =
     (Inl \<lparr>code = PIPE_MISSING_NAME,
           node = ExpressionNode (ObjectLiteralExpression [(''pure'', TrueKeyword)]),
           message = ''@Pipe decorator is missing name field''\<rparr>, []) \<and>
   registered (snd (analyze example_handler UpperCasePipe
       (Pipe_from ''@angular/core'' 7
          (Some [ObjectLiteralExpression [(''pure'', TrueKeyword)]])) [])) = []"
  using
    analyze_argument_shape [of UpperCasePipe "\<lparr>text = ''UpperCasePipe''\<rparr>"
      "Pipe_from ''@angular/core'' 7
         (Some [ParenthesizedExpression
                  (AsExpression (IdentifierExpression \<lparr>text = ''config''\<rparr>) ''any'')])"
      "ParenthesizedExpression
         (AsExpression (IdentifierExpression \<lparr>text = ''config''\<rparr>) ''any'')"
      example_handler "[]"]
    analyze_argument_shape [of UpperCasePipe "\<lparr>text = ''UpperCasePipe''\<rparr>"
      "Pipe_from ''@angular/core'' 7
         (Some [ObjectLiteralExpression [(''pure'', TrueKeyword)]])"
      "ObjectLiteralExpression [(''pure'', TrueKeyword)]"
      example_handler "[]"]
  by (simp add: UpperCasePipe_def Pipe_from_def example_handler_def)

subsection \<open>C6\<close>

text \<open>
  Claim C6. For a named declaration whose decorator has one argument that unwraps to an
  object literal with a \<^verbatim>\<open>name\<close> field: when that field does not evaluate to a string,
  \<open>analyze\<close> throws \<open>VALUE_HAS_WRONG_TYPE\<close> at the field's expression; when a \<^verbatim>\<open>pure\<close>
  field is present and does not evaluate to a boolean, \<open>analyze\<close> throws
  \<open>VALUE_HAS_WRONG_TYPE\<close> as well, at the expression of \<^verbatim>\<open>pure\<close> if the name passed its
  check (and at the name's expression if it did not).
\<close>

theorem analyze_field_wrong_type:
  assumes "ClassDeclaration.name clazz = Some n"
    and "args decorator = Some [arg]"
    and "isObjectLiteralExpression (unwrapExpression h arg)"
    and "reflectObjectLiteral h (unwrapExpression h arg) ''name'' = Some ne"
  shows "((\<forall>s. evaluate h ne \<noteq> VString s) \<longrightarrow>
            fst (analyze h clazz decorator calls) =
              Inl \<lparr>code = VALUE_HAS_WRONG_TYPE, node = ExpressionNode ne,
                   message = ''@Pipe.name must be a string''\<rparr>) \<and>
         (\<forall>pe. reflectObjectLiteral h (unwrapExpression h arg) ''pure'' = Some pe \<and>
                (\<forall>b. evaluate h pe \<noteq> VBoolean b) \<longrightarrow>
            (\<exists>e. fst (analyze h clazz decorator calls) = Inl e \<and>
                 code e = VALUE_HAS_WRONG_TYPE \<and>
                 (node e = ExpressionNode pe \<or> node e = ExpressionNode ne)) \<and>
            ((\<exists>s. evaluate h ne = VString s) \<longrightarrow>
               fst (analyze h clazz decorator calls) =
                 Inl \<lparr>code = VALUE_HAS_WRONG_TYPE, node = ExpressionNode pe,
                      message = ''@Pipe.pure must be a boolean''\<rparr>))"
proof (intro conjI allI impI)
  assume "\<forall>s. evaluate h ne \<noteq> VString s"
  then show "fst (analyze h clazz decorator calls) =
              Inl \<lparr>code = VALUE_HAS_WRONG_TYPE, node = ExpressionNode ne,
                   message = ''@Pipe.name must be a string''\<rparr>"
    by (cases "evaluate h ne") (simp_all add: analyze_named_literal [OF assms] throw_def)
next
  fix pe
  assume pe: "reflectObjectLiteral h (unwrapExpression h arg) ''pure'' = Some pe \<and>
              (\<forall>b. evaluate h pe \<noteq> VBoolean b)"
  show "\<exists>e. fst (analyze h clazz decorator calls) = Inl e \<and>
                 code e = VALUE_HAS_WRONG_TYPE \<and>
                 (node e = ExpressionNode pe \<or> node e = ExpressionNode ne)"
    using pe
    by (cases "evaluate h ne")
       (simp_all add: analyze_named_literal [OF assms] throw_def analyze_pure_not_boolean)
  assume "\<exists>s. evaluate h ne = VString s"
  then show "fst (analyze h clazz decorator calls) =
                 Inl \<lparr>code = VALUE_HAS_WRONG_TYPE, node = ExpressionNode pe,
                      message = ''@Pipe.pure must be a boolean''\<rparr>"
    using pe by (auto simp: analyze_named_literal [OF assms] analyze_pure_not_boolean)
qed

theorem analyze_field_wrong_type_witness:
  "fst (analyze example_handler UpperCasePipe
       (Pipe_from ''@angular/core'' 7
          (Some [ObjectLiteralExpression [(''name'', NumericLiteral 42)]])) []) =
     Inl \<lparr>code = VALUE_HAS_WRONG_TYPE, node = ExpressionNode (NumericLiteral 42),
          message = ''@Pipe.name must be a string''\<rparr> \<and>
   fst (analyze example_handler UpperCasePipe
       (Pipe_from ''@angular/core'' 7
          (Some [ObjectLiteralExpression
                   [(''name'', StringLiteral ''uppercase''), (''pure'', StringLiteral ''yes'')]])) []) =
     Inl \<lparr>code = VALUE_HAS_WRONG_TYPE, node = ExpressionNode (StringLiteral ''yes''),
          message = ''@Pipe.pure must be a boolean''\<rparr>"
  using
    analyze_field_wrong_type [of UpperCasePipe "\<lparr>text = ''UpperCasePipe''\<rparr>"
      "Pipe_from ''@angular/core'' 7
         (Some [ObjectLiteralExpression [(''name'', NumericLiteral 42)]])"
      "ObjectLiteralExpression [(''name'', NumericLiteral 42)]"
      example_handler "NumericLiteral 42" "[]"]
    analyze_field_wrong_type [of UpperCasePipe "\<lparr>text = ''UpperCasePipe''\<rparr>"
      "Pipe_from ''@angular/core'' 7
         (Some [ObjectLiteralExpression
                  [(''name'', StringLiteral ''uppercase''), (''pure'', StringLiteral ''yes'')]])"
      "ObjectLiteralExpression
         [(''name'', StringLiteral ''uppercase''), (''pure'', StringLiteral ''yes'')]"
      example_handler "StringLiteral ''uppercase''" "[]"]
  by (simp add: UpperCasePipe_def Pipe_from_def example_handler_def)

subsection \<open>C7\<close>

text \<open>
  Claim C7. When the analysis succeeds (the name is a string, the dependencies resolve),
  the purity flag of the metadata is true if the literal has no \<^verbatim>\<open>pure\<close> field, and is
  the boolean that \<^verbatim>\<open>pure\<close> evaluates to if it has one. The witness is the argument
  \<^verbatim>\<open>{ name: 'uppercase', pure: false }\<close> of scenario 2, with flag false, beside the
  argument \<^verbatim>\<open>{ name: 'uppercase' }\<close>, with flag true.
\<close>

theorem purity_flag_default_and_override:
  assumes "ClassDeclaration.name clazz = Some n"
    and "args decorator = Some [arg]"
    and "isObjectLiteralExpression (unwrapExpression h arg)"
    and "reflectObjectLiteral h (unwrapExpression h arg) ''name'' = Some ne"
    and "evaluate h ne = VString s"
    and "getValidConstructorDependencies h clazz (isCore h) = Inr ds"
  shows "(reflectObjectLiteral h (unwrapExpression h arg) ''pure'' = None \<longrightarrow>
            (\<exists>out. fst (analyze h clazz decorator calls) = Inr out \<and>
                   pure (meta (analysis out)) = True)) \<and>
         (\<forall>pe b. reflectObjectLiteral h (unwrapExpression h arg) ''pure'' = Some pe \<and>
                  evaluate h pe = VBoolean b \<longrightarrow>
            (\<exists>out. fst (analyze h clazz decorator calls) = Inr out \<and>
                   pure (meta (analysis out)) = b))"
  using assms(5)
  by (auto simp: analyze_named_literal [OF assms(1-4)] analyze_pure_absent
        analyze_pure_boolean analyze_output_resolved [OF assms(6)])

theorem purity_flag_default_and_override_witness:
  "(\<exists>out. fst (analyze example_handler UpperCasePipe
                 (Pipe_from ''@angular/core'' 7
                    (Some [ObjectLiteralExpression
                             [(''name'', StringLiteral ''uppercase''), (''pure'', FalseKeyword)]]))
                 []) = Inr out \<and>
          pure (meta (analysis out)) = False) \<and>
   (\<exists>out. fst (analyze example_handler UpperCasePipe
                 (Pipe_from ''@angular/core'' 7
                    (Some [ObjectLiteralExpression [(''name'', StringLiteral ''uppercase'')]]))
                 []) = Inr out \<and>
          pure (meta (analysis out)) = True)"
  using
    purity_flag_default_and_override [of UpperCasePipe "\<lparr>text = ''UpperCasePipe''\<rparr>"
      "Pipe_from ''@angular/core'' 7
         (Some [ObjectLiteralExpression
                  [(''name'', StringLiteral ''uppercase''), (''pure'', FalseKeyword)]])"
      "ObjectLiteralExpression [(''name'', StringLiteral ''uppercase''), (''pure'', FalseKeyword)]"
      example_handler "StringLiteral ''uppercase''" "''uppercase''" "[]" "[]"]
    purity_flag_default_and_override [of UpperCasePipe "\<lparr>text = ''UpperCasePipe''\<rparr>"
      "Pipe_from ''@angular/core'' 7
         (Some [ObjectLiteralExpression [(''name'', StringLiteral ''uppercase'')]])"
      "ObjectLiteralExpression [(''name'', StringLiteral ''uppercase'')]"
      example_handler "StringLiteral ''uppercase''" "''uppercase''" "[]" "[]"]
  by (auto simp: UpperCasePipe_def Pipe_from_def example_handler_def
        getValidConstructorDependencies_spec_def)

subsection \<open>C8\<close>

text \<open>
  Claim C8. \<open>compile\<close> is a total function with no error result; its artifact is always
  named \<open>ngPipeDef\<close>, and the statements of the artifact are the statements of the
  emitter, in their order, followed by the metadata statement of the analysis when there
  is one, and by nothing when there is none.
\<close>

theorem compile_name_and_statements:
  "CompileResult.name (compile h declaration a) = ''ngPipeDef'' \<and>
   (\<forall>stmt. metadataStmt a = Some stmt \<longrightarrow>
      CompileResult.statements (compile h declaration a) =
        R3PipeDef.statements (compilePipeFromMetadata h (meta a)) @ [stmt]) \<and>
   (metadataStmt a = None \<longrightarrow>
      CompileResult.statements (compile h declaration a) =
        R3PipeDef.statements (compilePipeFromMetadata h (meta a)))"
  by (simp add: compile_def Let_def)

theorem compile_name_and_statements_witness:
  "CompileResult.statements
     (compile example_handler UpperCasePipe
        \<lparr>meta = \<lparr>R3PipeMetadata.name = ''UpperCasePipe'',
                 type = WrappedNodeExpr \<lparr>text = ''UpperCasePipe''\<rparr>,
                 pipeName = ''uppercase'', deps = [], pure = True\<rparr>,
         metadataStmt = Some (ExpressionStatement (InvokeFunctionExpr ''setClassMetadata'' []))\<rparr>) =
     [ExpressionStatement (LiteralExpr (VString ''UpperCasePipe'')),
      ExpressionStatement (LiteralExpr (VString ''uppercase'')),
      ExpressionStatement (InvokeFunctionExpr ''setClassMetadata'' [])] \<and>
   CompileResult.statements
     (compile example_handler UpperCasePipe
        \<lparr>meta = \<lparr>R3PipeMetadata.name = ''UpperCasePipe'',
                 type = WrappedNodeExpr \<lparr>text = ''UpperCasePipe''\<rparr>,
                 pipeName = ''uppercase'', deps = [], pure = True\<rparr>,
         metadataStmt = None\<rparr>) =
     [ExpressionStatement (LiteralExpr (VString ''UpperCasePipe'')),
      ExpressionStatement (LiteralExpr (VString ''uppercase''))]"
  using
    compile_name_and_statements [of example_handler UpperCasePipe
      "\<lparr>meta = \<lparr>R3PipeMetadata.name = ''UpperCasePipe'',
                 type = WrappedNodeExpr \<lparr>text = ''UpperCasePipe''\<rparr>,
                 pipeName = ''uppercase'', deps = [], pure = True\<rparr>,
         metadataStmt = Some (ExpressionStatement (InvokeFunctionExpr ''setClassMetadata'' []))\<rparr>"]
    compile_name_and_statements [of example_handler UpperCasePipe
      "\<lparr>meta = \<lparr>R3PipeMetadata.name = ''UpperCasePipe'',
                 type = WrappedNodeExpr \<lparr>text = ''UpperCasePipe''\<rparr>,
                 pipeName = ''uppercase'', deps = [], pure = True\<rparr>,
         metadataStmt = None\<rparr>"]
  by (simp add: example_handler_def compilePipeFromMetadata_spec_def)

subsection \<open>C9\<close>

text \<open>
  Claim C9. \<open>detect\<close> is a total function without state. Without a decorator list it
  returns no match. With a list, it returns a match exactly for the decorator at the
  least index whose name is \<open>Pipe\<close> and for which the handler is in core mode or
  \<^verbatim>\<open>isAngularCore\<close> holds; the match carries the node of that decorator as trigger and
  the decorator as metadata. It returns no match exactly when no decorator of the list
  passes that test.
\<close>

theorem detect_first_match:
  "detect h declaration None = None \<and>
   (detect h declaration (Some ds) = Some r \<longleftrightarrow>
      (\<exists>i<length ds.
         Decorator.name (ds ! i) = ''Pipe'' \<and> (isCore h \<or> isAngularCore h (ds ! i)) \<and>
         (\<forall>j<i. \<not> (Decorator.name (ds ! j) = ''Pipe'' \<and>
                      (isCore h \<or> isAngularCore h (ds ! j)))) \<and>
         r = \<lparr>trigger = Decorator.node (ds ! i), metadata = ds ! i\<rparr>)) \<and>
   (detect h declaration (Some ds) = None \<longleftrightarrow>
      (\<forall>d\<in>set ds. \<not> (Decorator.name d = ''Pipe'' \<and> (isCore h \<or> isAngularCore h d))))"
proof (intro conjI)
  show "detect h declaration None = None"
    by (simp add: detect_def)
next
  let ?P = "\<lambda>d. Decorator.name d = ''Pipe'' \<and> (isCore h \<or> isAngularCore h d)"
  have "detect h declaration (Some ds) = Some r \<longleftrightarrow>
        (\<exists>d. find ?P ds = Some d \<and> r = \<lparr>trigger = Decorator.node d, metadata = d\<rparr>)"
    by (auto simp: detect_Some)
  also have "\<dots> \<longleftrightarrow> (\<exists>i<length ds. ?P (ds ! i) \<and> (\<forall>j<i. \<not> ?P (ds ! j)) \<and>
                 r = \<lparr>trigger = Decorator.node (ds ! i), metadata = ds ! i\<rparr>)"
    unfolding find_first_index [of ?P ds] by blast
  finally show "detect h declaration (Some ds) = Some r \<longleftrightarrow>
      (\<exists>i<length ds.
         Decorator.name (ds ! i) = ''Pipe'' \<and> (isCore h \<or> isAngularCore h (ds ! i)) \<and>
         (\<forall>j<i. \<not> (Decorator.name (ds ! j) = ''Pipe'' \<and>
                      (isCore h \<or> isAngularCore h (ds ! j)))) \<and>
         r = \<lparr>trigger = Decorator.node (ds ! i), metadata = ds ! i\<rparr>)"
    by simp
next
  show "detect h declaration (Some ds) = None \<longleftrightarrow>
      (\<forall>d\<in>set ds. \<not> (Decorator.name d = ''Pipe'' \<and> (isCore h \<or> isAngularCore h d)))"
    by (auto simp: detect_Some find_None_iff)
qed

theorem detect_first_match_witness:
  "detect example_handler (ClassDeclarationNode UpperCasePipe) (Some example_decorators) =
     Some \<lparr>trigger = DecoratorNode 3,
           metadata = Pipe_from ''@angular/core'' 3 (Some [ObjectLiteralExpression []])\<rparr> \<and>
   (\<exists>i<length example_decorators.
      Decorator.name (example_decorators ! i) = ''Pipe'' \<and>
      (isCore example_handler \<or> isAngularCore example_handler (example_decorators ! i)) \<and>
      (\<forall>j<i. \<not> (Decorator.name (example_decorators ! j) = ''Pipe'' \<and>
                   (isCore example_handler \<or>
                    isAngularCore example_handler (example_decorators ! j)))) \<and>
      \<lparr>trigger = DecoratorNode 3,
       metadata = Pipe_from ''@angular/core'' 3 (Some [ObjectLiteralExpression []])\<rparr> =
        \<lparr>trigger = Decorator.node (example_decorators ! i),
         metadata = example_decorators ! i\<rparr>) \<and>
   detect example_handler (ClassDeclarationNode UpperCasePipe)
     (Some [Pipe_from ''my-library'' 2 None]) = None"
proof -
  have found: "detect example_handler (ClassDeclarationNode UpperCasePipe)
       (Some example_decorators) =
     Some \<lparr>trigger = DecoratorNode 3,
           metadata = Pipe_from ''@angular/core'' 3 (Some [ObjectLiteralExpression []])\<rparr>"
    by (simp add: detect_def example_decorators_def Pipe_from_def example_handler_def
          isAngularCore_spec_def)
  have none: "\<forall>d\<in>set [Pipe_from ''my-library'' 2 None].
      \<not> (Decorator.name d = ''Pipe'' \<and>
          (isCore example_handler \<or> isAngularCore example_handler d))"
    by (simp add: Pipe_from_def example_handler_def isAngularCore_spec_def)
  from found none
    detect_first_match [of example_handler "ClassDeclarationNode UpperCasePipe"
      example_decorators
      "\<lparr>trigger = DecoratorNode 3,
        metadata = Pipe_from ''@angular/core'' 3 (Some [ObjectLiteralExpression []])\<rparr>"]
    detect_first_match [of example_handler "ClassDeclarationNode UpperCasePipe"
      "[Pipe_from ''my-library'' 2 None]"]
  show ?thesis by blast
qed

subsection \<open>C10\<close>

text \<open>
  Claim C10. \<open>compile\<close> does not read its declaration: for two declarations and one
  analysis the artifacts are equal.
\<close>

theorem compile_ignores_declaration:
  "compile h n1 a = compile h n2 a"
  by (simp add: compile_def)

end
